theory Spec2Isabelle
  imports Main "HOL-Library.Word"
begin

section \<open>JavaScript values and conversions\<close>

text \<open>
  The bridge (\<^verbatim>\<open>src/index.js\<close>) polls an Optimod over SNMP and writes the decoded
  readings into the leaves of an Ember+ tree. The leaves hold JavaScript booleans and
  strings.
\<close>

datatype js_value = JBool bool | JString string

text \<open>
  Modelled from the spec: the type of the raw value of a returned item, and the item
  itself, are declared by the SNMP client library, which is not under \<^verbatim>\<open>src/\<close>. The
  spec has a batch read return an ordered sequence of (value | itemError), the values
  being integers and text. An integer reaches the callback as a JavaScript number
  holding a 32-bit quantity, read signed (Integer) or unsigned (Counter, Gauge,
  TimeTicks); text reaches it as an object whose \<^verbatim>\<open>toString()\<close> is the text. A
  \<^typ>\<open>char\<close> stands for one code unit below 256.
\<close>

datatype raw_value = Integer32 "32 word" | Unsigned32 "32 word" | Text string

datatype varbind = ItemError | Item raw_value

text \<open>
  \<^verbatim>\<open>Number.prototype.toString\<close> on an integer of magnitude below \<open>10\<^sup>2\<^sup>1\<close>: the decimal
  digits, most significant first, after a minus sign for a negative number.
\<close>

definition digitChar :: "nat \<Rightarrow> char" where
  "digitChar d = char_of (48 + d)"

definition isDecimalChar :: "char \<Rightarrow> bool" where
  "isDecimalChar c = (48 \<le> (of_char c :: nat) \<and> (of_char c :: nat) \<le> 57)"

fun decimalDigits :: "nat \<Rightarrow> string" where
  "decimalDigits n =
     (if n < 10 then [digitChar n] else decimalDigits (n div 10) @ [digitChar (n mod 10)])"

definition Number_toString :: "int \<Rightarrow> string" where
  "Number_toString n =
     (if n < 0 then CHR ''-'' # decimalDigits (nat (- n)) else decimalDigits (nat n))"

text \<open>\<^verbatim>\<open>value.toString()\<close>, which is also the string \<^verbatim>\<open>parseInt(value)\<close> starts from.\<close>

fun toString :: "raw_value \<Rightarrow> string" where
  "toString (Integer32 w) = Number_toString (sint w)"
| "toString (Unsigned32 w) = Number_toString (uint w)"
| "toString (Text t) = t"

text \<open>
  \<^verbatim>\<open>parseInt(string)\<close> with no radix, after ECMAScript: leading white space is dropped,
  then one sign, then \<^verbatim>\<open>0x\<close> or \<^verbatim>\<open>0X\<close> selects radix 16 (radix 10 otherwise); the longest
  run of digits of the radix is the number, and an empty run gives \<^verbatim>\<open>NaN\<close>, here
  \<open>None\<close>. The result is kept as the mathematical integer: comparing it with \<open>1\<close> gives
  the same answer before and after rounding to a double. Where the program uses the
  number itself, as the poll interval, it is rounded by \<open>roundToDouble\<close> below.
\<close>

definition isWhiteSpace :: "char \<Rightarrow> bool" where
  "isWhiteSpace c = ((of_char c :: nat) \<in> {9, 10, 11, 12, 13, 32, 160})"

definition digitValue :: "char \<Rightarrow> nat" where
  "digitValue c =
     (let k = (of_char c :: nat) in
      if 48 \<le> k \<and> k \<le> 57 then k - 48
      else if 97 \<le> k \<and> k \<le> 122 then k - 87
      else if 65 \<le> k \<and> k \<le> 90 then k - 55
      else 36)"

definition isRadixDigit :: "nat \<Rightarrow> char \<Rightarrow> bool" where
  "isRadixDigit R c = (digitValue c < R)"

definition radixValue :: "nat \<Rightarrow> string \<Rightarrow> nat" where
  "radixValue R Z = foldl (\<lambda>a c. a * R + digitValue c) 0 Z"

definition parseInt :: "string \<Rightarrow> int option" where
  "parseInt inputString =
     (let S = dropWhile isWhiteSpace inputString;
          sign = (if S \<noteq> [] \<and> hd S = CHR ''-'' then - 1 else 1 :: int);
          S1 = (if S \<noteq> [] \<and> (hd S = CHR ''+'' \<or> hd S = CHR ''-'') then tl S else S);
          stripPrefix = (take 2 S1 = ''0x'' \<or> take 2 S1 = ''0X'');
          R = (if stripPrefix then 16 else 10);
          S2 = (if stripPrefix then drop 2 S1 else S1);
          Z = takeWhile (isRadixDigit R) S2
      in if Z = [] then None else Some (sign * int (radixValue R Z)))"

text \<open>
  The Number that \<^verbatim>\<open>parseInt\<close> returns for an integer: the nearest double, ties going to
  the even significand, and an infinity from \<open>2\<^sup>1\<^sup>0\<^sup>2\<^sup>4\<close> on. A double holds every integer
  of at most 53 bits; a longer one keeps its 53 leading bits, rounded on the bits cut
  off. (ECMAScript lets an implementation drop decimal digits after the twentieth; Node
  rounds the whole digit string correctly.)
\<close>

datatype js_number = Integral int | PlusInfinity | MinusInfinity

fun bitLength :: "nat \<Rightarrow> nat" where
  "bitLength n = (if n = 0 then 0 else Suc (bitLength (n div 2)))"

definition roundToDouble :: "int \<Rightarrow> js_number" where
  "roundToDouble n =
     (let m = nat \<bar>n\<bar>; L = bitLength m in
      if L \<le> 53 then Integral n
      else
        (let shift = L - 53;
             q = m div 2 ^ shift;
             r = m mod 2 ^ shift;
             half = 2 ^ (shift - 1);
             q' = (if half < r \<or> (r = half \<and> odd q) then q + 1 else q);
             v = q' * 2 ^ shift
         in if 2 ^ 1024 \<le> v then (if n < 0 then MinusInfinity else PlusInfinity)
            else Integral (if n < 0 then - int v else int v)))"

text \<open>\<^verbatim>\<open>const boolVal = (parseInt(value) === 1);\<close>\<close>

definition boolVal :: "raw_value \<Rightarrow> bool" where
  "boolVal v = (parseInt (toString v) = Some 1)"

section \<open>The Ember+ tree\<close>

datatype ParameterType = ParameterType_String | ParameterType_Boolean

datatype ParameterAccess = ParameterAccess_Read

text \<open>
  \<^verbatim>\<open>new ParameterImpl(type, identifier, description, value, undefined, undefined, access)\<close>;
  the two arguments left undefined (the bounds of a numeric parameter) are not kept.
\<close>

record parameter =
  parameterType :: ParameterType
  "identifier" :: string
  description :: string
  pvalue :: js_value
  access :: ParameterAccess

definition ParameterImpl ::
  "ParameterType \<Rightarrow> string \<Rightarrow> string \<Rightarrow> js_value \<Rightarrow> ParameterAccess \<Rightarrow> parameter" where
  "ParameterImpl t i d v a =
     \<lparr>parameterType = t, identifier = i, description = d, pvalue = v, access = a\<rparr>"

text \<open>
  The eleven parameter nodes are objects shared between the tree, which holds them as
  children, and the polling callback, which updates them. Each is named by the variable
  the source binds it to; the contents of the objects are a store indexed by these names.
  Every one of them is built as \<^verbatim>\<open>new NumberedTreeNodeImpl(1, new ParameterImpl(...))\<close>.
\<close>

datatype parameter_node =
    softwareVersionParameterNode
  | stationNameParameterNode
  | inputAnalogParameterNode
  | inputDigitalParameterNode
  | analogInputSilentParameterNode
  | aesInputSilentParameterNode
  | aesInputErrorParameterNode
  | powerSupply1StatusParameterNode
  | powerSupply2StatusParameterNode
  | connectedParameterNode
  | lastPollParameterNode

definition parameterNodeNumber :: "parameter_node \<Rightarrow> nat" where
  "parameterNodeNumber r = 1"

fun parameterNodes :: "parameter_node \<Rightarrow> parameter" where
  "parameterNodes softwareVersionParameterNode =
     ParameterImpl ParameterType_String ''Software Version'' ''Firmware version''
       (JString []) ParameterAccess_Read"
| "parameterNodes stationNameParameterNode =
     ParameterImpl ParameterType_String ''Station Name'' ''Station name''
       (JString []) ParameterAccess_Read"
| "parameterNodes inputAnalogParameterNode =
     ParameterImpl ParameterType_Boolean ''Input Analog'' ''Analog Input active status''
       (JBool False) ParameterAccess_Read"
| "parameterNodes inputDigitalParameterNode =
     ParameterImpl ParameterType_Boolean ''Input Digital'' ''Digital Input active status''
       (JBool False) ParameterAccess_Read"
| "parameterNodes analogInputSilentParameterNode =
     ParameterImpl ParameterType_Boolean ''Analog Input Silent'' ''Analog input silent status''
       (JBool False) ParameterAccess_Read"
| "parameterNodes aesInputSilentParameterNode =
     ParameterImpl ParameterType_Boolean ''AES Input Silent'' ''AES input silent status''
       (JBool False) ParameterAccess_Read"
| "parameterNodes aesInputErrorParameterNode =
     ParameterImpl ParameterType_Boolean ''AES Input Error'' ''AES input error status''
       (JBool False) ParameterAccess_Read"
| "parameterNodes powerSupply1StatusParameterNode =
     ParameterImpl ParameterType_Boolean ''Power Supply 1'' ''Power Supply 1 status''
       (JBool False) ParameterAccess_Read"
| "parameterNodes powerSupply2StatusParameterNode =
     ParameterImpl ParameterType_Boolean ''Power Supply 2'' ''Power Supply 2 status''
       (JBool False) ParameterAccess_Read"
| "parameterNodes connectedParameterNode =
     ParameterImpl ParameterType_Boolean ''Optimod Connected''
       ''Indicates if the Optimod device is reachable via SNMP''
       (JBool False) ParameterAccess_Read"
| "parameterNodes lastPollParameterNode =
     ParameterImpl ParameterType_String ''Last Poll''
       ''Timestamp of the last successful SNMP poll''
       (JString []) ParameterAccess_Read"

text \<open>
  \<^verbatim>\<open>new EmberNodeImpl(identifier, description, undefined, true)\<close> and
  \<^verbatim>\<open>new NumberedTreeNodeImpl(number, contents, children)\<close>. The children object
  \<^verbatim>\<open>{ 1: a, 2: b }\<close> is the list of its keys with their nodes, in key order.
\<close>

datatype ember_node = EmberNodeImpl string string bool

datatype tree_node =
    NumberedTreeNodeImpl nat ember_node "(nat \<times> tree_node) list"
  | ParameterNode parameter_node

definition deviceInfoSubtree :: "(nat \<times> tree_node) list" where
  "deviceInfoSubtree =
     [(1, NumberedTreeNodeImpl 1 (EmberNodeImpl ''Software Version'' ''Firmware version'' True)
            [(1, ParameterNode softwareVersionParameterNode)]),
      (2, NumberedTreeNodeImpl 2 (EmberNodeImpl ''Station Name'' ''Station name'' True)
            [(1, ParameterNode stationNameParameterNode)])]"

definition monitoringSubtree :: "(nat \<times> tree_node) list" where
  "monitoringSubtree =
     [(1, NumberedTreeNodeImpl 1
            (EmberNodeImpl ''Input Analog'' ''Analog Input active status'' True)
            [(1, ParameterNode inputAnalogParameterNode)]),
      (2, NumberedTreeNodeImpl 2
            (EmberNodeImpl ''Input Digital'' ''Digital Input active status'' True)
            [(1, ParameterNode inputDigitalParameterNode)]),
      (3, NumberedTreeNodeImpl 3
            (EmberNodeImpl ''Analog Input Silent'' ''Analog input silent status'' True)
            [(1, ParameterNode analogInputSilentParameterNode)]),
      (4, NumberedTreeNodeImpl 4
            (EmberNodeImpl ''AES Input Silent'' ''AES input silent status'' True)
            [(1, ParameterNode aesInputSilentParameterNode)]),
      (5, NumberedTreeNodeImpl 5
            (EmberNodeImpl ''AES Input Error'' ''AES input error status'' True)
            [(1, ParameterNode aesInputErrorParameterNode)]),
      (6, NumberedTreeNodeImpl 6
            (EmberNodeImpl ''Power Supply 1'' ''Power Supply 1 status'' True)
            [(1, ParameterNode powerSupply1StatusParameterNode)]),
      (7, NumberedTreeNodeImpl 7
            (EmberNodeImpl ''Power Supply 2'' ''Power Supply 2 status'' True)
            [(1, ParameterNode powerSupply2StatusParameterNode)])]"

definition statusSubtree :: "(nat \<times> tree_node) list" where
  "statusSubtree =
     [(1, NumberedTreeNodeImpl 1 (EmberNodeImpl ''Connected'' ''Optimod connection status'' True)
            [(1, ParameterNode connectedParameterNode)]),
      (2, NumberedTreeNodeImpl 2
            (EmberNodeImpl ''Last Poll'' ''Timestamp of last successful SNMP poll'' True)
            [(1, ParameterNode lastPollParameterNode)])]"

definition tree :: "(nat \<times> tree_node) list" where
  "tree =
     [(1, NumberedTreeNodeImpl 1
            (EmberNodeImpl ''Optimod'' ''Orban Optimod SNMP to EmberPlus Gateway'' True)
            [(1, NumberedTreeNodeImpl 1
                   (EmberNodeImpl ''Device Info'' ''Device Information'' True)
                   deviceInfoSubtree),
             (2, NumberedTreeNodeImpl 2
                   (EmberNodeImpl ''Monitoring'' ''Monitoring Parameters'' True)
                   monitoringSubtree),
             (3, NumberedTreeNodeImpl 3
                   (EmberNodeImpl ''Status'' ''Connection status'' True)
                   statusSubtree)])]"

text \<open>
  What a client sees of the tree's shape: every element with its path (the numbers of
  the nodes from the root down), its label and whether it is a group or a leaf, in
  document order. The labels of the leaves are read from the store.
\<close>

datatype element_kind = Group | Leaf ParameterType

fun elements ::
  "(parameter_node \<Rightarrow> parameter) \<Rightarrow> nat list \<Rightarrow> tree_node \<Rightarrow> (nat list \<times> string \<times> element_kind) list"
  where
  "elements st path (ParameterNode r) =
     [(path @ [parameterNodeNumber r], identifier (st r), Leaf (parameterType (st r)))]"
| "elements st path (NumberedTreeNodeImpl n (EmberNodeImpl i d onl) children) =
     (path @ [n], i, Group) # concat (map (\<lambda>kc. elements st (path @ [n]) (snd kc)) children)"

definition treeElements ::
  "(parameter_node \<Rightarrow> parameter) \<Rightarrow> (nat \<times> tree_node) list \<Rightarrow> (nat list \<times> string \<times> element_kind) list"
  where
  "treeElements st roots = concat (map (\<lambda>kc. elements st [] (snd kc)) roots)"

text \<open>Every child is stored under the key that is its own number.\<close>

fun nodeNumber :: "tree_node \<Rightarrow> nat" where
  "nodeNumber (ParameterNode r) = parameterNodeNumber r"
| "nodeNumber (NumberedTreeNodeImpl n c children) = n"

fun keysAreNumbers :: "tree_node \<Rightarrow> bool" where
  "keysAreNumbers (ParameterNode r) = True"
| "keysAreNumbers (NumberedTreeNodeImpl n c children) =
     list_all (\<lambda>kc. fst kc = nodeNumber (snd kc) \<and> keysAreNumbers (snd kc)) children"

section \<open>The Ember+ server\<close>

text \<open>
  \<^verbatim>\<open>server.update(node, { value: v })\<close> assigns \<open>v\<close> to the \<^verbatim>\<open>value\<close> of the node's contents
  and notifies the subscribed clients. The server is the store of the parameter nodes
  together with the updates issued so far, oldest first.
\<close>

record ember_server =
  params :: "parameter_node \<Rightarrow> parameter"
  updates :: "(parameter_node \<times> js_value) list"

definition server_update :: "parameter_node \<Rightarrow> js_value \<Rightarrow> ember_server \<Rightarrow> ember_server" where
  "server_update node v srv =
     srv\<lparr>params := (params srv)(node := (params srv node)\<lparr>pvalue := v\<rparr>),
         updates := updates srv @ [(node, v)]\<rparr>"

text \<open>\<^verbatim>\<open>server.init(tree)\<close>: the nodes as constructed, nothing updated yet.\<close>

definition server_init :: ember_server where
  "server_init = \<lparr>params = parameterNodes, updates = []\<rparr>"

definition leafValue :: "ember_server \<Rightarrow> parameter_node \<Rightarrow> js_value" where
  "leafValue srv node = pvalue (params srv node)"

definition typeOf :: "js_value \<Rightarrow> ParameterType" where
  "typeOf v = (case v of JBool b \<Rightarrow> ParameterType_Boolean | JString s \<Rightarrow> ParameterType_String)"

section \<open>One polling cycle\<close>

text \<open>The table \<^verbatim>\<open>oids\<close>, in insertion order; \<^verbatim>\<open>Object.keys\<close> and \<^verbatim>\<open>Object.values\<close> follow it.\<close>

definition oids :: "(string \<times> string) list" where
  "oids =
     [(''softwareVersion'', ''1.3.6.1.4.1.41877.5.1.1''),
      (''stationName'', ''1.3.6.1.4.1.41877.5.1.2''),
      (''inputAnalog'', ''1.3.6.1.4.1.41877.5.3.1''),
      (''inputDigital'', ''1.3.6.1.4.1.41877.5.3.2''),
      (''analogInputSilent'', ''1.3.6.1.4.1.41877.5.3.3''),
      (''aesInputSilent'', ''1.3.6.1.4.1.41877.5.3.4''),
      (''aesInputError'', ''1.3.6.1.4.1.41877.5.3.5''),
      (''powerSupply1Status'', ''1.3.6.1.4.1.41877.5.3.6''),
      (''powerSupply2Status'', ''1.3.6.1.4.1.41877.5.3.7'')]"

definition Object_keys :: "(string \<times> string) list \<Rightarrow> string list" where
  "Object_keys obj = map fst obj"

definition Object_values :: "(string \<times> string) list \<Rightarrow> string list" where
  "Object_values obj = map snd obj"

text \<open>
  The body run for an item that is not an error: the two device-info keys are written as
  strings, every other key goes through \<^verbatim>\<open>boolVal\<close> and a \<^verbatim>\<open>switch\<close> that has no default
  case. Console output is left out.
\<close>

definition updateNode :: "string \<Rightarrow> raw_value \<Rightarrow> ember_server \<Rightarrow> ember_server" where
  "updateNode key value srv =
     (if key = ''softwareVersion'' then
        server_update softwareVersionParameterNode (JString (toString value)) srv
      else if key = ''stationName'' then
        server_update stationNameParameterNode (JString (toString value)) srv
      else
        (let b = boolVal value in
         if key = ''inputAnalog'' then server_update inputAnalogParameterNode (JBool b) srv
         else if key = ''inputDigital'' then server_update inputDigitalParameterNode (JBool b) srv
         else if key = ''analogInputSilent'' then
           server_update analogInputSilentParameterNode (JBool b) srv
         else if key = ''aesInputSilent'' then
           server_update aesInputSilentParameterNode (JBool b) srv
         else if key = ''aesInputError'' then
           server_update aesInputErrorParameterNode (JBool b) srv
         else if key = ''powerSupply1Status'' then
           server_update powerSupply1StatusParameterNode (JBool b) srv
         else if key = ''powerSupply2Status'' then
           server_update powerSupply2StatusParameterNode (JBool b) srv
         else srv))"

text \<open>
  \<^verbatim>\<open>varbinds[index]\<close>: reading a JavaScript array beyond its end gives \<^verbatim>\<open>undefined\<close>,
  here \<open>None\<close>.
\<close>

definition arrayAt :: "'a list \<Rightarrow> nat \<Rightarrow> 'a option" where
  "arrayAt xs index = (if index < length xs then Some (xs ! index) else None)"

text \<open>
  The function given to \<^verbatim>\<open>keys.forEach\<close>, applied to a key and the item at its index. An
  item with an error marker is reported and skipped. On \<^verbatim>\<open>undefined\<close> the test for the
  marker raises a \<^verbatim>\<open>TypeError\<close>, which leaves the loop and the callback; what was written
  before stays written.
\<close>

datatype completion = Returned | TypeError

fun forEachBody :: "string \<Rightarrow> varbind option \<Rightarrow> ember_server \<Rightarrow> completion \<times> ember_server" where
  "forEachBody key None srv = (TypeError, srv)"
| "forEachBody key (Some ItemError) srv = (Returned, srv)"
| "forEachBody key (Some (Item value)) srv = (Returned, updateNode key value srv)"

fun forEachKey ::
  "string list \<Rightarrow> nat \<Rightarrow> varbind list \<Rightarrow> ember_server \<Rightarrow> completion \<times> ember_server" where
  "forEachKey [] index varbinds srv = (Returned, srv)"
| "forEachKey (key # rest) index varbinds srv =
     (case forEachBody key (arrayAt varbinds index) srv of
        (TypeError, srv') \<Rightarrow> (TypeError, srv')
      | (Returned, srv') \<Rightarrow> forEachKey rest (index + 1) varbinds srv')"

text \<open>
  The callback given to \<^verbatim>\<open>session.get\<close>. \<open>error\<close> is \<open>None\<close> for \<^verbatim>\<open>null\<close>; \<open>now\<close> is the
  clock reading of \<^verbatim>\<open>new Date()\<close> in milliseconds, and \<open>toISOString\<close> the platform's
  rendering of it, a parameter of the model.
\<close>

definition pollOptimod_callback ::
  "(int \<Rightarrow> string) \<Rightarrow> int \<Rightarrow> string option \<Rightarrow> varbind list \<Rightarrow> ember_server
     \<Rightarrow> completion \<times> ember_server" where
  "pollOptimod_callback toISOString now error varbinds srv =
     (case error of
        Some e \<Rightarrow> (Returned, server_update connectedParameterNode (JBool False) srv)
      | None \<Rightarrow>
          forEachKey (Object_keys oids) 0 varbinds
            (server_update lastPollParameterNode (JString (toISOString now))
               (server_update connectedParameterNode (JBool True) srv)))"

text \<open>
  The data leaves in the order of their items in a batch. \<open>decoded\<close> is the decoding
  rule in the spec's words, against which the callback is compared: a String-kind
  quantity receives the text of the raw value, a Boolean-kind one whether the raw value,
  read as an integer, equals 1.
\<close>

definition dataNodes :: "parameter_node list" where
  "dataNodes =
     [softwareVersionParameterNode, stationNameParameterNode, inputAnalogParameterNode,
      inputDigitalParameterNode, analogInputSilentParameterNode, aesInputSilentParameterNode,
      aesInputErrorParameterNode, powerSupply1StatusParameterNode,
      powerSupply2StatusParameterNode]"

definition decoded :: "ParameterType \<Rightarrow> raw_value \<Rightarrow> js_value" where
  "decoded t v =
     (case t of
        ParameterType_String \<Rightarrow> JString (toString v)
      | ParameterType_Boolean \<Rightarrow> JBool (parseInt (toString v) = Some 1))"

text \<open>
  All parameter nodes of the tree, and the typing discipline of a server: every node
  keeps the type it was declared with, holds a value of that type, and every update
  issued so far carried a value of the type of its node.
\<close>

definition allNodes :: "parameter_node list" where
  "allNodes = dataNodes @ [connectedParameterNode, lastPollParameterNode]"

definition typedUpdate :: "parameter_node \<times> js_value \<Rightarrow> bool" where
  "typedUpdate u = (typeOf (snd u) = parameterType (parameterNodes (fst u)))"

definition wellTyped :: "ember_server \<Rightarrow> bool" where
  "wellTyped srv =
     (list_all (\<lambda>n. parameterType (params srv n) = parameterType (parameterNodes n) \<and>
                     typeOf (leafValue srv n) = parameterType (parameterNodes n)) allNodes \<and>
      list_all typedUpdate (updates srv))"

section \<open>The scheduler\<close>

text \<open>
  \<^verbatim>\<open>setInterval(pollOptimod, POLL_INTERVAL_MS)\<close> calls \<^verbatim>\<open>pollOptimod\<close> at every tick of the
  timer. \<^verbatim>\<open>pollOptimod\<close> hands the request for \<open>Object_values oids\<close> to the SNMP session
  and returns; the callback runs later, when the reply or the time-out of that request
  arrives. The bridge keeps the requests whose callback has not run yet. An exception
  that leaves a callback is caught nowhere and ends the process.
\<close>

record bridge =
  emberServer :: ember_server
  nextRequest :: nat
  inFlight :: "nat list"
  running :: bool
  interval :: js_number

datatype event = Tick | Reply nat int "string option" "varbind list"

definition pollOptimod :: "bridge \<Rightarrow> bridge" where
  "pollOptimod b = b\<lparr>nextRequest := nextRequest b + 1, inFlight := inFlight b @ [nextRequest b]\<rparr>"

definition step :: "(int \<Rightarrow> string) \<Rightarrow> bridge \<Rightarrow> event \<Rightarrow> bridge" where
  "step toISOString b ev =
     (if \<not> running b then b
      else case ev of
        Tick \<Rightarrow> pollOptimod b
      | Reply k now error varbinds \<Rightarrow>
          if k \<in> set (inFlight b) then
            (let r = pollOptimod_callback toISOString now error varbinds (emberServer b) in
             b\<lparr>emberServer := snd r, inFlight := removeAll k (inFlight b),
               running := (fst r = Returned)\<rparr>)
          else b)"

fun run :: "(int \<Rightarrow> string) \<Rightarrow> event list \<Rightarrow> bridge \<Rightarrow> bridge" where
  "run toISOString [] b = b"
| "run toISOString (ev # evs) b = run toISOString evs (step toISOString b ev)"


section \<open>Start-up\<close>

text \<open>
  \<^verbatim>\<open>parseInt(process.env.POLL_INTERVAL_MS) || 5000\<close>: a variable that is not set reads as
  \<^verbatim>\<open>undefined\<close>, which \<^verbatim>\<open>parseInt\<close> turns into the string \<^verbatim>\<open>undefined\<close>; \<^verbatim>\<open>NaN\<close> and zero
  (of either sign) are the falsy results, an infinity is not.
\<close>

definition envToString :: "string option \<Rightarrow> string" where
  "envToString e = (case e of None \<Rightarrow> ''undefined'' | Some s \<Rightarrow> s)"

definition POLL_INTERVAL_MS :: "string option \<Rightarrow> js_number" where
  "POLL_INTERVAL_MS env =
     (case parseInt (envToString env) of
        None \<Rightarrow> Integral 5000
      | Some n \<Rightarrow>
          if roundToDouble n = Integral 0 then Integral 5000 else roundToDouble n)"

text \<open>
  The script from its first line to \<^verbatim>\<open>setInterval\<close>. No statement of it tests the
  interval or raises on it; the error is there so that a failing start could be told
  from one that goes on.
\<close>

datatype startup_error = StartupConfigurationError

definition initialBridge :: "string option \<Rightarrow> bridge" where
  "initialBridge env =
     \<lparr>emberServer = server_init, nextRequest = 0, inFlight = [], running = True,
      interval = POLL_INTERVAL_MS env\<rparr>"

definition startup :: "string option \<Rightarrow> startup_error + bridge" where
  "startup env = Inr (initialBridge env)"

section \<open>Decimal text and \<^verbatim>\<open>parseInt\<close>\<close>

declare decimalDigits.simps [simp del]

lemma digitValue_digitChar: "d < 10 \<Longrightarrow> digitValue (digitChar d) = d"
  by (simp add: digitValue_def digitChar_def Let_def)

lemma of_char_digitChar: "d < 10 \<Longrightarrow> (of_char (digitChar d) :: nat) = 48 + d"
  by (simp add: digitChar_def)

lemma isDecimalChar_digitChar: "d < 10 \<Longrightarrow> isDecimalChar (digitChar d)"
  by (simp add: isDecimalChar_def of_char_digitChar)

lemma decimalDigits_chars: "\<forall>c \<in> set (decimalDigits n). isDecimalChar c"
proof (induction n rule: decimalDigits.induct)
  case (1 n)
  show ?case
  proof (cases "n < 10")
    case True
    then show ?thesis by (subst decimalDigits.simps) (simp add: isDecimalChar_digitChar)
  next
    case False
    with 1 show ?thesis by (subst decimalDigits.simps) (simp add: isDecimalChar_digitChar)
  qed
qed

lemma decimalDigits_nonempty: "decimalDigits n \<noteq> []"
  by (subst decimalDigits.simps) simp

lemma radixValue_snoc: "radixValue R (Z @ [c]) = radixValue R Z * R + digitValue c"
  by (simp add: radixValue_def)

lemma radixValue_decimalDigits: "radixValue 10 (decimalDigits n) = n"
proof (induction n rule: decimalDigits.induct)
  case (1 n)
  show ?case
  proof (cases "n < 10")
    case True
    then show ?thesis
      by (subst decimalDigits.simps) (simp add: radixValue_def digitValue_digitChar)
  next
    case False
    with 1 show ?thesis
      by (subst decimalDigits.simps) (simp add: radixValue_snoc digitValue_digitChar)
  qed
qed

lemma isDecimalChar_facts:
  assumes "isDecimalChar c"
  shows "\<not> isWhiteSpace c" "c \<noteq> CHR ''-''" "c \<noteq> CHR ''+''" "c \<noteq> CHR ''x''" "c \<noteq> CHR ''X''"
    "isRadixDigit 10 c"
  using assms
  by (auto simp: isDecimalChar_def isWhiteSpace_def isRadixDigit_def digitValue_def Let_def)

lemma parseInt_decimal:
  assumes Z: "Z \<noteq> []" and all: "\<forall>c \<in> set Z. isDecimalChar c"
  shows "parseInt Z = Some (int (radixValue 10 Z))"
proof -
  from Z obtain c cs where Zc: "Z = c # cs" by (cases Z) auto
  have c: "isDecimalChar c" using all Zc by simp
  have sp: "(take 2 Z = ''0x'' \<or> take 2 Z = ''0X'') = False"
    using all Zc isDecimalChar_facts(4,5) by (cases cs) auto
  have tw: "takeWhile (isRadixDigit 10) Z = Z"
    using all isDecimalChar_facts(6) by (simp add: takeWhile_eq_all_conv)
  have dw: "dropWhile isWhiteSpace Z = Z"
    using c Zc isDecimalChar_facts(1) by simp
  have h1: "(Z \<noteq> [] \<and> hd Z = CHR ''-'') = False"
    using Zc isDecimalChar_facts(2)[OF c] by simp
  have h2: "(Z \<noteq> [] \<and> (hd Z = CHR ''+'' \<or> hd Z = CHR ''-'')) = False"
    using Zc isDecimalChar_facts(2,3)[OF c] by simp
  show ?thesis
    unfolding parseInt_def Let_def dw h1 h2 if_False sp tw using Z by simp
qed

lemma parseInt_minus_decimal:
  assumes Z: "Z \<noteq> []" and all: "\<forall>c \<in> set Z. isDecimalChar c"
  shows "parseInt (CHR ''-'' # Z) = Some (- int (radixValue 10 Z))"
proof -
  from Z obtain c cs where Zc: "Z = c # cs" by (cases Z) auto
  have c: "isDecimalChar c" using all Zc by simp
  have sp: "(take 2 Z = ''0x'' \<or> take 2 Z = ''0X'') = False"
    using all Zc isDecimalChar_facts(4,5) by (cases cs) auto
  have tw: "takeWhile (isRadixDigit 10) Z = Z"
    using all isDecimalChar_facts(6) by (simp add: takeWhile_eq_all_conv)
  have dw: "dropWhile isWhiteSpace (CHR ''-'' # Z) = CHR ''-'' # Z"
    by (simp add: isWhiteSpace_def)
  have h1: "(CHR ''-'' # Z \<noteq> [] \<and> hd (CHR ''-'' # Z) = CHR ''-'') = True"
    by simp
  have h2: "(CHR ''-'' # Z \<noteq> [] \<and>
      (hd (CHR ''-'' # Z) = CHR ''+'' \<or> hd (CHR ''-'' # Z) = CHR ''-'')) = True"
    by simp
  have tl: "tl (CHR ''-'' # Z) = Z" by simp
  show ?thesis
    unfolding parseInt_def Let_def dw h1 h2 if_True tl sp if_False tw using Z by simp
qed

lemma parseInt_Number_toString: "parseInt (Number_toString k) = Some k"
  by (simp add: Number_toString_def radixValue_decimalDigits
      parseInt_decimal[OF decimalDigits_nonempty decimalDigits_chars]
      parseInt_minus_decimal[OF decimalDigits_nonempty decimalDigits_chars])

section \<open>Effects of one callback\<close>

lemma leafValue_server_update:
  "leafValue (server_update n v srv) m = (if m = n then v else leafValue srv m)"
  by (simp add: leafValue_def server_update_def)

lemma updates_server_update: "updates (server_update n v srv) = updates srv @ [(n, v)]"
  by (simp add: server_update_def)

lemma parameterType_server_update:
  "parameterType (params (server_update n v srv) m) = parameterType (params srv m)"
  by (simp add: server_update_def)

lemma updateNode_table:
  "list_all2 (\<lambda>key node. \<forall>value srv. updateNode key value srv =
        server_update node (decoded (parameterType (parameterNodes node)) value) srv)
     (Object_keys oids) dataNodes"
  by (simp add: Object_keys_def oids_def dataNodes_def updateNode_def decoded_def boolVal_def
      ParameterImpl_def)

lemma forEachKey_leaves:
  assumes "list_all2 (\<lambda>key node. \<forall>value srv. updateNode key value srv =
        server_update node (f node value) srv) ks ns"
    and "distinct ns" and "index + length ks \<le> length varbinds"
  shows "fst (forEachKey ks index varbinds srv) = Returned \<and>
    (\<forall>j<length ns. leafValue (snd (forEachKey ks index varbinds srv)) (ns ! j) =
        (case varbinds ! (index + j) of
           ItemError \<Rightarrow> leafValue srv (ns ! j)
         | Item value \<Rightarrow> f (ns ! j) value)) \<and>
    (\<forall>m. m \<notin> set ns \<longrightarrow> leafValue (snd (forEachKey ks index varbinds srv)) m = leafValue srv m)"
  using assms
proof (induction ks ns arbitrary: index srv rule: list_all2_induct)
  case Nil
  then show ?case by simp
next
  case (Cons key ks node ns)
  have inr: "index < length varbinds" using Cons.prems by simp
  define srv1 where "srv1 = (case varbinds ! index of ItemError \<Rightarrow> srv
      | Item value \<Rightarrow> server_update node (f node value) srv)"
  have body: "forEachBody key (arrayAt varbinds index) srv = (Returned, srv1)"
    using inr Cons.hyps(1) by (cases "varbinds ! index") (simp_all add: arrayAt_def srv1_def)
  have unfold: "forEachKey (key # ks) index varbinds srv = forEachKey ks (Suc index) varbinds srv1"
    by (simp add: body)
  have IH: "fst (forEachKey ks (Suc index) varbinds srv1) = Returned \<and>
    (\<forall>j<length ns. leafValue (snd (forEachKey ks (Suc index) varbinds srv1)) (ns ! j) =
        (case varbinds ! (Suc index + j) of
           ItemError \<Rightarrow> leafValue srv1 (ns ! j)
         | Item value \<Rightarrow> f (ns ! j) value)) \<and>
    (\<forall>m. m \<notin> set ns \<longrightarrow> leafValue (snd (forEachKey ks (Suc index) varbinds srv1)) m = leafValue srv1 m)"
    using Cons.IH[of "Suc index" srv1] Cons.prems by simp
  have other: "leafValue srv1 m = leafValue srv m" if "m \<noteq> node" for m
    using that by (cases "varbinds ! index") (simp_all add: srv1_def leafValue_server_update)
  have here: "leafValue srv1 node = (case varbinds ! index of
           ItemError \<Rightarrow> leafValue srv node | Item value \<Rightarrow> f node value)"
    by (cases "varbinds ! index") (simp_all add: srv1_def leafValue_server_update)
  have notin: "node \<notin> set ns" using Cons.prems by simp
  show ?case
  proof (intro conjI allI impI)
    show "fst (forEachKey (key # ks) index varbinds srv) = Returned"
      unfolding unfold using IH by simp
  next
    fix j assume j: "j < length (node # ns)"
    show "leafValue (snd (forEachKey (key # ks) index varbinds srv)) ((node # ns) ! j) =
        (case varbinds ! (index + j) of
           ItemError \<Rightarrow> leafValue srv ((node # ns) ! j)
         | Item value \<Rightarrow> f ((node # ns) ! j) value)"
    proof (cases j)
      case 0
      then show ?thesis
        unfolding unfold using IH notin here by (simp cong: varbind.case_cong)
    next
      case (Suc j')
      then have j': "j' < length ns" using j by simp
      then have "ns ! j' \<noteq> node" using notin by (metis nth_mem)
      then show ?thesis
        unfolding unfold using IH j' Suc other by (simp cong: varbind.case_cong)
    qed
  next
    fix m assume "m \<notin> set (node # ns)"
    then show "leafValue (snd (forEachKey (key # ks) index varbinds srv)) m = leafValue srv m"
      unfolding unfold using IH other by simp
  qed
qed

lemma distinct_dataNodes: "distinct dataNodes"
  by (simp add: dataNodes_def)

lemma length_dataNodes: "length dataNodes = 9" "length (Object_keys oids) = 9"
  by (simp_all add: dataNodes_def Object_keys_def oids_def)

lemma status_not_data:
  "connectedParameterNode \<notin> set dataNodes" "lastPollParameterNode \<notin> set dataNodes"
  by (simp_all add: dataNodes_def)


lemma updateNode_status:
  "m = connectedParameterNode \<or> m = lastPollParameterNode \<Longrightarrow>
     leafValue (updateNode key value srv) m = leafValue srv m"
  by (auto simp: updateNode_def Let_def leafValue_server_update)

lemma forEachBody_status:
  "m = connectedParameterNode \<or> m = lastPollParameterNode \<Longrightarrow>
     leafValue (snd (forEachBody key x srv)) m = leafValue srv m"
  by (cases "(key, x, srv)" rule: forEachBody.cases) (auto simp: updateNode_status)

lemma forEachKey_status:
  "m = connectedParameterNode \<or> m = lastPollParameterNode \<Longrightarrow>
     leafValue (snd (forEachKey ks index varbinds srv)) m = leafValue srv m"
proof (induction ks arbitrary: index srv)
  case Nil
  then show ?case by simp
next
  case (Cons key ks)
  obtain c srv1 where body: "forEachBody key (arrayAt varbinds index) srv = (c, srv1)"
    by (cases "forEachBody key (arrayAt varbinds index) srv") auto
  have s1: "leafValue srv1 m = leafValue srv m"
    using forEachBody_status[OF Cons.prems, of key "arrayAt varbinds index" srv] body by simp
  show ?case
  proof (cases c)
    case Returned
    then show ?thesis using body Cons.IH[OF Cons.prems, of "index + 1" srv1] s1 by simp
  next
    case TypeError
    then show ?thesis using body s1 by simp
  qed
qed

lemma callback_stamps:
  "leafValue (snd (pollOptimod_callback toISOString now None varbinds srv)) connectedParameterNode
     = JBool True"
  "leafValue (snd (pollOptimod_callback toISOString now None varbinds srv)) lastPollParameterNode
     = JString (toISOString now)"
  by (simp_all add: pollOptimod_callback_def forEachKey_status leafValue_server_update)

lemma callback_leaves:
  assumes len: "length varbinds = length dataNodes"
  shows "fst (pollOptimod_callback toISOString now None varbinds srv) = Returned"
    and "j < length dataNodes \<Longrightarrow>
      leafValue (snd (pollOptimod_callback toISOString now None varbinds srv)) (dataNodes ! j) =
        (case varbinds ! j of
           ItemError \<Rightarrow> leafValue srv (dataNodes ! j)
         | Item value \<Rightarrow> decoded (parameterType (parameterNodes (dataNodes ! j))) value)"
proof -
  let ?srv0 = "server_update lastPollParameterNode (JString (toISOString now))
               (server_update connectedParameterNode (JBool True) srv)"
  have le: "0 + length (Object_keys oids) \<le> length varbinds"
    using len by (simp add: length_dataNodes)
  note L = forEachKey_leaves[OF updateNode_table distinct_dataNodes le, of ?srv0]
  show "fst (pollOptimod_callback toISOString now None varbinds srv) = Returned"
    using L by (simp add: pollOptimod_callback_def)
  assume j: "j < length dataNodes"
  then have "dataNodes ! j \<in> set dataNodes" by simp
  then have "dataNodes ! j \<noteq> connectedParameterNode" "dataNodes ! j \<noteq> lastPollParameterNode"
    using status_not_data by auto
  then have "leafValue ?srv0 (dataNodes ! j) = leafValue srv (dataNodes ! j)"
    by (simp add: leafValue_server_update)
  then show "leafValue (snd (pollOptimod_callback toISOString now None varbinds srv)) (dataNodes ! j) =
        (case varbinds ! j of
           ItemError \<Rightarrow> leafValue srv (dataNodes ! j)
         | Item value \<Rightarrow> decoded (parameterType (parameterNodes (dataNodes ! j))) value)"
    using L j by (simp add: pollOptimod_callback_def cong: varbind.case_cong)
qed

lemma nodes_exhaust: "n \<in> set allNodes"
  by (cases n) (simp_all add: allNodes_def dataNodes_def)

lemma wellTyped_server_update:
  "wellTyped srv \<Longrightarrow> typeOf v = parameterType (parameterNodes n) \<Longrightarrow>
     wellTyped (server_update n v srv)"
  by (simp add: wellTyped_def list_all_iff leafValue_server_update parameterType_server_update
      updates_server_update typedUpdate_def)

lemma wellTyped_updateNode: "wellTyped srv \<Longrightarrow> wellTyped (updateNode key value srv)"
  by (simp add: updateNode_def Let_def wellTyped_server_update typeOf_def ParameterImpl_def)

lemma wellTyped_forEachBody: "wellTyped srv \<Longrightarrow> wellTyped (snd (forEachBody key x srv))"
  by (cases "(key, x, srv)" rule: forEachBody.cases) (auto simp: wellTyped_updateNode)

lemma wellTyped_forEachKey:
  "wellTyped srv \<Longrightarrow> wellTyped (snd (forEachKey ks index varbinds srv))"
proof (induction ks arbitrary: index srv)
  case Nil
  then show ?case by simp
next
  case (Cons key ks)
  obtain c srv1 where body: "forEachBody key (arrayAt varbinds index) srv = (c, srv1)"
    by (cases "forEachBody key (arrayAt varbinds index) srv") auto
  have s1: "wellTyped srv1"
    using wellTyped_forEachBody[OF Cons.prems, of key "arrayAt varbinds index"] body by simp
  show ?case
  proof (cases c)
    case Returned
    then show ?thesis using body Cons.IH[OF s1, of "index + 1"] by simp
  next
    case TypeError
    then show ?thesis using body s1 by simp
  qed
qed

lemma wellTyped_callback:
  "wellTyped srv \<Longrightarrow> wellTyped (snd (pollOptimod_callback toISOString now error varbinds srv))"
  by (cases error)
    (simp_all add: pollOptimod_callback_def wellTyped_forEachKey wellTyped_server_update
      typeOf_def ParameterImpl_def)

lemma wellTyped_step:
  "wellTyped (emberServer b) \<Longrightarrow> wellTyped (emberServer (step toISOString b ev))"
  by (cases ev) (simp_all add: step_def pollOptimod_def Let_def wellTyped_callback)

lemma wellTyped_run:
  "wellTyped (emberServer b) \<Longrightarrow> wellTyped (emberServer (run toISOString evs b))"
  by (induction evs arbitrary: b) (simp_all add: wellTyped_step)

lemma wellTyped_init: "wellTyped server_init"
  by (simp add: wellTyped_def server_init_def allNodes_def dataNodes_def leafValue_def
      typeOf_def ParameterImpl_def)






section \<open>The scheduler and start-up\<close>

lemma run_ticks:
  "running b \<Longrightarrow>
     run toISOString (replicate n Tick) b =
       b\<lparr>nextRequest := nextRequest b + n,
         inFlight := inFlight b @ [nextRequest b ..< nextRequest b + n]\<rparr>"
proof (induction n arbitrary: b)
  case 0
  then show ?case by simp
next
  case (Suc n)
  have r: "running (step toISOString b Tick)"
    using Suc.prems by (simp add: step_def pollOptimod_def)
  have "[nextRequest b ..< nextRequest b + Suc n]
      = nextRequest b # [Suc (nextRequest b) ..< Suc (nextRequest b) + n]"
    by (simp add: upt_rec)
  then show ?case
    using Suc.IH[OF r] Suc.prems by (simp add: step_def pollOptimod_def)
qed

lemma parse_samples:
  "parseInt ''0'' = Some 0" "parseInt ''-5'' = Some (- 5)" "parseInt ''abc'' = None"
  "parseInt ''250'' = Some 250" "parseInt ''undefined'' = None"
  by (simp_all add: parseInt_def isWhiteSpace_def isRadixDigit_def digitValue_def
      radixValue_def Let_def)

section \<open>Rounding to a double\<close>

declare bitLength.simps [simp del]

lemma bitLength_le: "n < 2 ^ k \<Longrightarrow> bitLength n \<le> k"
proof (induction k arbitrary: n)
  case 0
  then show ?case by (subst bitLength.simps) simp
next
  case (Suc k)
  have "n div 2 < 2 ^ k" using Suc.prems by simp
  from Suc.IH[OF this] show ?case by (subst bitLength.simps) simp
qed

lemma bitLength_lower: "n \<noteq> 0 \<Longrightarrow> 2 ^ bitLength n \<le> 2 * n"
proof (induction n rule: bitLength.induct)
  case (1 n)
  show ?case
  proof (cases "n div 2 = 0")
    case True
    then have "n = 1" using "1.prems" by (simp add: div_eq_0_iff)
    then show ?thesis by (simp add: bitLength.simps)
  next
    case False
    from "1.IH"[OF "1.prems" False] have "2 ^ bitLength (n div 2) \<le> 2 * (n div 2)" .
    also have "\<dots> \<le> n" by simp
    finally show ?thesis using "1.prems" by (subst bitLength.simps) simp
  qed
qed

lemma bitLength_2p53: "bitLength 9007199254740992 = 54"
  by (simp add: bitLength.simps)

lemma roundToDouble_exact: "\<bar>n\<bar> \<le> 2 ^ 53 \<Longrightarrow> roundToDouble n = Integral n"
proof (cases "\<bar>n\<bar> < 2 ^ 53")
  case True
  then have "nat \<bar>n\<bar> < 2 ^ 53" by simp
  from bitLength_le[OF this] show ?thesis by (simp add: roundToDouble_def Let_def)
next
  case False
  assume "\<bar>n\<bar> \<le> 2 ^ 53"
  with False have "\<bar>n\<bar> = 9007199254740992" by simp
  then have m: "nat \<bar>n\<bar> = 9007199254740992" and n: "n = 9007199254740992 \<or> n = - 9007199254740992"
    by auto
  show ?thesis
    unfolding roundToDouble_def Let_def m bitLength_2p53 using n by auto
qed

lemma rounded_nonzero:
  "0 < v \<Longrightarrow>
     (if B then (if neg then MinusInfinity else PlusInfinity)
      else Integral (if neg then - int v else int v)) \<noteq> Integral 0"
  by auto

lemma roundToDouble_nonzero: "n \<noteq> 0 \<Longrightarrow> roundToDouble n \<noteq> Integral 0"
proof (cases "bitLength (nat \<bar>n\<bar>) \<le> 53")
  case True
  assume "n \<noteq> 0"
  with True show ?thesis by (simp add: roundToDouble_def Let_def)
next
  case False
  assume n0: "n \<noteq> 0"
  let ?m = "nat \<bar>n\<bar>"
  let ?s = "bitLength ?m - 53"
  have m0: "?m \<noteq> 0" using n0 by simp
  have "2 ^ Suc ?s \<le> (2::nat) ^ bitLength ?m"
    using False by (intro power_increasing) auto
  also have "\<dots> \<le> 2 * ?m" by (rule bitLength_lower[OF m0])
  finally have "2 ^ ?s \<le> ?m" by simp
  then have q: "0 < ?m div 2 ^ ?s" by (simp add: div_greater_zero_iff)
  then have v: "0 < (if 2 ^ (?s - 1) < ?m mod 2 ^ ?s \<or>
                       (?m mod 2 ^ ?s = 2 ^ (?s - 1) \<and> odd (?m div 2 ^ ?s))
                    then ?m div 2 ^ ?s + 1 else ?m div 2 ^ ?s) * 2 ^ ?s"
    by simp
  show ?thesis
    unfolding roundToDouble_def Let_def using False
    by (simp only: if_False) (rule rounded_nonzero[OF v])
qed

lemma parse_2p53_plus_1: "parseInt ''9007199254740993'' = Some 9007199254740993"
  by (simp add: parseInt_def isWhiteSpace_def isRadixDigit_def digitValue_def
      radixValue_def Let_def)

lemma bitLength_2p53_plus_1: "bitLength 9007199254740993 = 54"
  by (simp add: bitLength.simps)

lemma round_2p53_plus_1: "roundToDouble 9007199254740993 = Integral 9007199254740992"
  unfolding roundToDouble_def Let_def by (simp add: bitLength_2p53_plus_1)


section \<open>Properties of the polling cycle\<close>

text \<open>
  C1. A cycle whose batch read fails as a whole: the callback returns, no data leaf
  changes its value, the connected leaf becomes false, the last-poll leaf keeps the value
  it had before the cycle, and the one update issued is the one of the connected leaf.
\<close>

theorem failed_batch_only_disconnects:
  "fst (pollOptimod_callback toISOString now (Some e) varbinds srv) = Returned \<and>
   map (leafValue (snd (pollOptimod_callback toISOString now (Some e) varbinds srv))) dataNodes
     = map (leafValue srv) dataNodes \<and>
   leafValue (snd (pollOptimod_callback toISOString now (Some e) varbinds srv))
     connectedParameterNode = JBool False \<and>
   leafValue (snd (pollOptimod_callback toISOString now (Some e) varbinds srv))
     lastPollParameterNode = leafValue srv lastPollParameterNode \<and>
   updates (snd (pollOptimod_callback toISOString now (Some e) varbinds srv))
     = updates srv @ [(connectedParameterNode, JBool False)]"
  by (simp add: pollOptimod_callback_def leafValue_server_update updates_server_update
      dataNodes_def)




text \<open>
  C3. The boolean decoded from an integer raw value, signed or unsigned, is true exactly
  when the integer is 1; so is the one decoded from the decimal text of an integer.
\<close>

theorem boolVal_iff_one:
  "boolVal (Integer32 w) = (sint w = 1) \<and>
   boolVal (Unsigned32 w) = (uint w = 1) \<and>
   boolVal (Text (Number_toString n)) = (n = 1)"
  by (simp add: boolVal_def parseInt_Number_toString)

text \<open>
  C4. A successful batch with one item for every data leaf, in which item \<open>i\<close> carries
  an error marker and every other item a value: the callback returns, the cycle is a
  success (connected is true, the last poll is stamped), the leaf of item \<open>i\<close> keeps its
  previous value, and every other leaf holds the value decoded from its item after the
  declared type of the leaf.
\<close>

theorem item_error_isolated:
  assumes "length varbinds = length dataNodes"
    and "i < length varbinds"
    and "varbinds ! i = ItemError"
    and "\<forall>j<length varbinds. j \<noteq> i \<longrightarrow> (\<exists>value. varbinds ! j = Item value)"
  shows "fst (pollOptimod_callback toISOString now None varbinds srv) = Returned \<and>
    leafValue (snd (pollOptimod_callback toISOString now None varbinds srv))
      connectedParameterNode = JBool True \<and>
    leafValue (snd (pollOptimod_callback toISOString now None varbinds srv))
      lastPollParameterNode = JString (toISOString now) \<and>
    leafValue (snd (pollOptimod_callback toISOString now None varbinds srv)) (dataNodes ! i)
      = leafValue srv (dataNodes ! i) \<and>
    (\<forall>j<length varbinds. j \<noteq> i \<longrightarrow>
       (\<exists>value. varbinds ! j = Item value \<and>
          leafValue (snd (pollOptimod_callback toISOString now None varbinds srv)) (dataNodes ! j)
            = decoded (parameterType (parameterNodes (dataNodes ! j))) value))"
proof (intro conjI allI impI)
  show "fst (pollOptimod_callback toISOString now None varbinds srv) = Returned"
    by (rule callback_leaves(1)[OF assms(1)])
  show "leafValue (snd (pollOptimod_callback toISOString now None varbinds srv))
      connectedParameterNode = JBool True"
    by (rule callback_stamps(1))
  show "leafValue (snd (pollOptimod_callback toISOString now None varbinds srv))
      lastPollParameterNode = JString (toISOString now)"
    by (rule callback_stamps(2))
  show "leafValue (snd (pollOptimod_callback toISOString now None varbinds srv)) (dataNodes ! i)
      = leafValue srv (dataNodes ! i)"
    using callback_leaves(2)[OF assms(1), of i toISOString now srv] assms(1,2,3) by simp
next
  fix j assume j: "j < length varbinds" "j \<noteq> i"
  then obtain x where v: "varbinds ! j = Item x" using assms(4) by blast
  have "leafValue (snd (pollOptimod_callback toISOString now None varbinds srv)) (dataNodes ! j)
            = decoded (parameterType (parameterNodes (dataNodes ! j))) x"
    using callback_leaves(2)[OF assms(1), of j toISOString now srv] assms(1) j v by simp
  with v show "\<exists>value. varbinds ! j = Item value \<and>
          leafValue (snd (pollOptimod_callback toISOString now None varbinds srv)) (dataNodes ! j)
            = decoded (parameterType (parameterNodes (dataNodes ! j))) value"
    by blast
qed

text \<open>
  The theorem on a batch of nine items whose fourth carries the error marker.
\<close>

theorem item_error_isolated_witness:
  "let varbinds = [Item (Text ''2.1.0''), Item (Text ''WXYZ''), Item (Integer32 1), ItemError,
                   Item (Integer32 0), Item (Integer32 2), Item (Integer32 (- 1)),
                   Item (Unsigned32 1), Item (Text ''abc'')];
       r = pollOptimod_callback Number_toString 1000 None varbinds server_init
   in length varbinds = length dataNodes \<and> varbinds ! 3 = ItemError \<and>
      fst r = Returned \<and>
      leafValue (snd r) connectedParameterNode = JBool True \<and>
      leafValue (snd r) (dataNodes ! 3) = leafValue server_init (dataNodes ! 3)"
proof -
  let ?vbs = "[Item (Text ''2.1.0''), Item (Text ''WXYZ''), Item (Integer32 1), ItemError,
                   Item (Integer32 0), Item (Integer32 2), Item (Integer32 (- 1)),
                   Item (Unsigned32 1), Item (Text ''abc'')]"
  have h1: "length ?vbs = length dataNodes" by (simp add: dataNodes_def)
  have h2: "3 < length ?vbs" by simp
  have h3: "?vbs ! 3 = ItemError" by simp
  have h4: "\<forall>j<length ?vbs. j \<noteq> 3 \<longrightarrow> (\<exists>value. ?vbs ! j = Item value)"
    by (simp add: eval_nat_numeral All_less_Suc)
  from item_error_isolated[OF h1 h2 h3 h4, of Number_toString 1000 server_init] h1 h3
  show ?thesis by (simp add: Let_def)
qed

text \<open>
  C7. In a successful batch, the leaf of a String-kind quantity whose item is a value
  holds the text of that value as \<^verbatim>\<open>toString()\<close> gives it; the text of a textual payload
  is the payload itself, the empty one included.
\<close>

theorem string_leaf_verbatim:
  assumes "length varbinds = length dataNodes"
    and "j < length dataNodes"
    and "parameterType (parameterNodes (dataNodes ! j)) = ParameterType_String"
    and "varbinds ! j = Item value"
  shows "leafValue (snd (pollOptimod_callback toISOString now None varbinds srv)) (dataNodes ! j)
      = JString (toString value) \<and> toString (Text t) = t"
  using callback_leaves(2)[OF assms(1,2), of toISOString now srv] assms(3,4)
  by (simp add: decoded_def)

text \<open>
  The theorem on a batch whose station name is the empty text.
\<close>

theorem string_leaf_verbatim_witness:
  "let varbinds = [Item (Text ''2.1.0''), Item (Text []), Item (Integer32 1), ItemError,
                   Item (Integer32 0), Item (Integer32 2), Item (Integer32 (- 1)),
                   Item (Unsigned32 1), Item (Text ''abc'')]
   in length varbinds = length dataNodes \<and>
      parameterType (parameterNodes (dataNodes ! 1)) = ParameterType_String \<and>
      leafValue (snd (pollOptimod_callback Number_toString 1000 None varbinds server_init))
        stationNameParameterNode = JString []"
proof -
  let ?vbs = "[Item (Text ''2.1.0''), Item (Text []), Item (Integer32 1), ItemError,
                   Item (Integer32 0), Item (Integer32 2), Item (Integer32 (- 1)),
                   Item (Unsigned32 1), Item (Text ''abc'')]"
  have h1: "length ?vbs = length dataNodes" by (simp add: dataNodes_def)
  have h2: "1 < length dataNodes" by (simp add: dataNodes_def)
  have h3: "parameterType (parameterNodes (dataNodes ! 1)) = ParameterType_String"
    by (simp add: dataNodes_def ParameterImpl_def)
  have h4: "?vbs ! 1 = Item (Text [])" by simp
  have n: "dataNodes ! 1 = stationNameParameterNode" by (simp add: dataNodes_def)
  from string_leaf_verbatim[OF h1 h2 h3 h4, of Number_toString 1000 server_init] h1 h3 n
  show ?thesis by (simp add: Let_def)
qed

text \<open>
  C9. A raw value whose integer parse fails decodes to false, and for each quantity
  whose leaf is declared Boolean the loop body returns normally, having written false to
  that leaf.
\<close>

theorem unparsable_boolean_written_false:
  assumes "parseInt (toString value) = None"
  shows "boolVal value = False \<and>
    list_all (\<lambda>kn. forEachBody (fst kn) (Some (Item value)) srv =
                 (Returned, server_update (snd kn) (JBool False) srv))
      (filter (\<lambda>kn. parameterType (parameterNodes (snd kn)) = ParameterType_Boolean)
         (zip (Object_keys oids) dataNodes))"
  using assms
  by (simp add: boolVal_def Object_keys_def oids_def dataNodes_def updateNode_def
      ParameterImpl_def)

text \<open>
  The theorem on the text \<^verbatim>\<open>abc\<close>, which has no integer parse.
\<close>

theorem unparsable_boolean_written_false_witness:
  "parseInt (toString (Text ''abc'')) = None \<and>
   boolVal (Text ''abc'') = False \<and>
   forEachBody ''inputAnalog'' (Some (Item (Text ''abc''))) server_init
     = (Returned, server_update inputAnalogParameterNode (JBool False) server_init)"
proof -
  have h: "parseInt (toString (Text ''abc'')) = None"
    by (simp add: parseInt_def isWhiteSpace_def isRadixDigit_def digitValue_def Let_def)
  from unparsable_boolean_written_false[OF h, of server_init] h
  show ?thesis by (simp add: Object_keys_def oids_def dataNodes_def ParameterImpl_def)
qed

text \<open>
  C10. Over every run of the bridge from start-up, every update ever issued carried a
  value of the declared type of its node, and every node keeps its declared type and
  holds a value of it.
\<close>

theorem updates_keep_declared_types:
  "list_all (\<lambda>u. typeOf (snd u) = parameterType (parameterNodes (fst u)))
     (updates (emberServer (run toISOString evs (initialBridge env)))) \<and>
   (\<forall>n. parameterType (params (emberServer (run toISOString evs (initialBridge env))) n)
           = parameterType (parameterNodes n) \<and>
        typeOf (leafValue (emberServer (run toISOString evs (initialBridge env))) n)
           = parameterType (parameterNodes n))"
proof -
  have "wellTyped (emberServer (run toISOString evs (initialBridge env)))"
    by (rule wellTyped_run) (simp add: initialBridge_def wellTyped_init)
  then show ?thesis
    using nodes_exhaust by (auto simp: wellTyped_def list_all_iff typedUpdate_def)
qed

section \<open>Properties of the scheduler, of start-up and of the tree\<close>

text \<open>
  C5, as stated, fails: nothing in \<^verbatim>\<open>pollOptimod\<close> or around \<^verbatim>\<open>setInterval\<close> looks at the
  cycles in flight. After one tick cycle 0 is in flight; a second tick before its reply
  starts cycle 1 beside it.
\<close>

theorem two_ticks_two_cycles_in_flight:
  "inFlight (run Number_toString [Tick] (initialBridge None)) = [0] \<and>
   inFlight (run Number_toString [Tick, Tick] (initialBridge None)) = [0, 1] \<and>
   \<not> length (inFlight (run Number_toString [Tick, Tick] (initialBridge None))) \<le> 1"
  by (simp add: step_def pollOptimod_def initialBridge_def)

text \<open>
  C5, amended. Every tick starts a cycle, whether or not earlier cycles have
  completed: from start-up, \<open>n\<close> ticks with no reply between them leave \<open>n\<close> cycles in
  flight. When the reply of a cycle arrives before the next tick and nothing else was in
  flight, nothing is in flight after it.
\<close>

theorem ticks_start_cycles_unguarded:
  "inFlight (run toISOString (replicate n Tick) (initialBridge env)) = [0 ..< n] \<and>
   (running b \<and> inFlight b = [] \<longrightarrow>
      inFlight (step toISOString (step toISOString b Tick)
                  (Reply (nextRequest b) now error varbinds)) = [])"
proof -
  have "running (initialBridge env)" by (simp add: initialBridge_def)
  from run_ticks[OF this, of toISOString n]
  have a: "inFlight (run toISOString (replicate n Tick) (initialBridge env)) = [0 ..< n]"
    by (simp add: initialBridge_def)
  have b: "running b \<and> inFlight b = [] \<longrightarrow>
      inFlight (step toISOString (step toISOString b Tick)
                  (Reply (nextRequest b) now error varbinds)) = []"
    by (simp add: step_def pollOptimod_def Let_def)
  from a b show ?thesis by simp
qed

text \<open>
  The theorem on three ticks from start-up, and on a tick followed by its reply.
\<close>

theorem ticks_start_cycles_unguarded_witness:
  "inFlight (run Number_toString (replicate 3 Tick) (initialBridge None)) = [0, 1, 2] \<and>
   running (initialBridge None) \<and> inFlight (initialBridge None) = [] \<and>
   inFlight (step Number_toString (step Number_toString (initialBridge None) Tick)
               (Reply 0 1000 (Some ''timeout'') [])) = []"
proof -
  have h: "running (initialBridge None) \<and> inFlight (initialBridge None) = []"
    by (simp add: initialBridge_def)
  have n: "nextRequest (initialBridge None) = 0" by (simp add: initialBridge_def)
  have u: "[0 ..< 3] = [0, 1, 2::nat]" by (simp add: upt_rec)
  from ticks_start_cycles_unguarded[of Number_toString 3 None "initialBridge None" 1000
      "Some ''timeout''" "[]"] h n u
  show ?thesis by simp
qed

text \<open>
  C6, as stated, fails: with the interval configured as \<^verbatim>\<open>0\<close> start-up goes on with
  the default, and with \<^verbatim>\<open>-5\<close> it goes on with the interval \<open>-5\<close>.
\<close>

theorem nonpositive_interval_starts_anyway:
  "startup (Some ''0'') = Inr (initialBridge (Some ''0'')) \<and>
   interval (initialBridge (Some ''0'')) = Integral 5000 \<and>
   startup (Some ''-5'') = Inr (initialBridge (Some ''-5'')) \<and>
   interval (initialBridge (Some ''-5'')) = Integral (- 5) \<and>
   running (initialBridge (Some ''-5''))"
  by (simp add: startup_def initialBridge_def POLL_INTERVAL_MS_def envToString_def
      parse_samples roundToDouble_exact)

text \<open>
  C6, amended. Start-up never fails on the poll interval. When the variable is not set,
  or its value has no integer parse or parses as zero, the interval is the default of
  5000 ms. A value that parses as a positive integer gives the interval: the double
  nearest to that integer, which is never zero and is the integer itself up to \<open>2\<^sup>5\<^sup>3\<close>.
\<close>

theorem startup_never_fails:
  "startup env = Inr (initialBridge env) \<and> running (initialBridge env) \<and>
   interval (initialBridge None) = Integral 5000 \<and>
   (parseInt s = None \<or> parseInt s = Some 0 \<longrightarrow>
      interval (initialBridge (Some s)) = Integral 5000) \<and>
   (parseInt s = Some n \<and> 0 < n \<longrightarrow>
      interval (initialBridge (Some s)) = roundToDouble n \<and>
      roundToDouble n \<noteq> Integral 0 \<and>
      (n \<le> 2 ^ 53 \<longrightarrow> roundToDouble n = Integral n))"
proof -
  have a: "startup env = Inr (initialBridge env) \<and> running (initialBridge env)"
    by (simp add: startup_def initialBridge_def)
  have b: "interval (initialBridge None) = Integral 5000"
    by (simp add: initialBridge_def POLL_INTERVAL_MS_def envToString_def parse_samples)
  have c: "parseInt s = None \<or> parseInt s = Some 0 \<longrightarrow>
      interval (initialBridge (Some s)) = Integral 5000"
    by (auto simp: initialBridge_def POLL_INTERVAL_MS_def envToString_def roundToDouble_exact)
  have d: "parseInt s = Some n \<and> 0 < n \<longrightarrow>
      interval (initialBridge (Some s)) = roundToDouble n \<and>
      roundToDouble n \<noteq> Integral 0 \<and>
      (n \<le> 2 ^ 53 \<longrightarrow> roundToDouble n = Integral n)"
    using roundToDouble_nonzero[of n] roundToDouble_exact[of n]
    by (auto simp: initialBridge_def POLL_INTERVAL_MS_def envToString_def)
  from a b c d show ?thesis by simp
qed

text \<open>
  The theorem on the values \<^verbatim>\<open>abc\<close> and \<^verbatim>\<open>250\<close>, and on \<open>2\<^sup>5\<^sup>3 + 1\<close>, which a double does
  not hold.
\<close>

theorem startup_never_fails_witness:
  "parseInt ''abc'' = None \<and> interval (initialBridge (Some ''abc'')) = Integral 5000 \<and>
   parseInt ''250'' = Some 250 \<and> interval (initialBridge (Some ''250'')) = Integral 250 \<and>
   startup (Some ''250'') = Inr (initialBridge (Some ''250'')) \<and>
   parseInt ''9007199254740993'' = Some 9007199254740993 \<and>
   interval (initialBridge (Some ''9007199254740993'')) = Integral 9007199254740992"
  using startup_never_fails[of "Some ''250''" "''abc''" 0]
    startup_never_fails[of "Some ''250''" "''250''" 250]
    startup_never_fails[of "Some ''250''" "''9007199254740993''" 9007199254740993]
    parse_samples parse_2p53_plus_1 round_2p53_plus_1
  by simp

text \<open>
  C8. The tree does not depend on anything that varies between two starts of the
  bridge: the server published at start-up is the same under any two environments. Its
  elements are the root, the three groups Device Info, Monitoring and Status, and under
  them one group and one leaf for each quantity, with the paths and labels listed; the
  paths are pairwise distinct and every child sits under the key that is its number.
\<close>

theorem tree_is_fixed:
  "emberServer (initialBridge env1) = emberServer (initialBridge env2) \<and>
   treeElements (params (emberServer (initialBridge env1))) tree =
     [([1], ''Optimod'', Group),
      ([1, 1], ''Device Info'', Group),
      ([1, 1, 1], ''Software Version'', Group),
      ([1, 1, 1, 1], ''Software Version'', Leaf ParameterType_String),
      ([1, 1, 2], ''Station Name'', Group),
      ([1, 1, 2, 1], ''Station Name'', Leaf ParameterType_String),
      ([1, 2], ''Monitoring'', Group),
      ([1, 2, 1], ''Input Analog'', Group),
      ([1, 2, 1, 1], ''Input Analog'', Leaf ParameterType_Boolean),
      ([1, 2, 2], ''Input Digital'', Group),
      ([1, 2, 2, 1], ''Input Digital'', Leaf ParameterType_Boolean),
      ([1, 2, 3], ''Analog Input Silent'', Group),
      ([1, 2, 3, 1], ''Analog Input Silent'', Leaf ParameterType_Boolean),
      ([1, 2, 4], ''AES Input Silent'', Group),
      ([1, 2, 4, 1], ''AES Input Silent'', Leaf ParameterType_Boolean),
      ([1, 2, 5], ''AES Input Error'', Group),
      ([1, 2, 5, 1], ''AES Input Error'', Leaf ParameterType_Boolean),
      ([1, 2, 6], ''Power Supply 1'', Group),
      ([1, 2, 6, 1], ''Power Supply 1'', Leaf ParameterType_Boolean),
      ([1, 2, 7], ''Power Supply 2'', Group),
      ([1, 2, 7, 1], ''Power Supply 2'', Leaf ParameterType_Boolean),
      ([1, 3], ''Status'', Group),
      ([1, 3, 1], ''Connected'', Group),
      ([1, 3, 1, 1], ''Optimod Connected'', Leaf ParameterType_Boolean),
      ([1, 3, 2], ''Last Poll'', Group),
      ([1, 3, 2, 1], ''Last Poll'', Leaf ParameterType_String)] \<and>
   distinct (map fst (treeElements (params (emberServer (initialBridge env1))) tree)) \<and>
   list_all keysAreNumbers (map snd tree)"
proof -
  have e: "emberServer (initialBridge env1) = emberServer (initialBridge env2)"
    by (simp add: initialBridge_def)
  have p: "params (emberServer (initialBridge env1)) = parameterNodes"
    by (simp add: initialBridge_def server_init_def)
  have t: "treeElements parameterNodes tree =
     [([1], ''Optimod'', Group),
      ([1, 1], ''Device Info'', Group),
      ([1, 1, 1], ''Software Version'', Group),
      ([1, 1, 1, 1], ''Software Version'', Leaf ParameterType_String),
      ([1, 1, 2], ''Station Name'', Group),
      ([1, 1, 2, 1], ''Station Name'', Leaf ParameterType_String),
      ([1, 2], ''Monitoring'', Group),
      ([1, 2, 1], ''Input Analog'', Group),
      ([1, 2, 1, 1], ''Input Analog'', Leaf ParameterType_Boolean),
      ([1, 2, 2], ''Input Digital'', Group),
      ([1, 2, 2, 1], ''Input Digital'', Leaf ParameterType_Boolean),
      ([1, 2, 3], ''Analog Input Silent'', Group),
      ([1, 2, 3, 1], ''Analog Input Silent'', Leaf ParameterType_Boolean),
      ([1, 2, 4], ''AES Input Silent'', Group),
      ([1, 2, 4, 1], ''AES Input Silent'', Leaf ParameterType_Boolean),
      ([1, 2, 5], ''AES Input Error'', Group),
      ([1, 2, 5, 1], ''AES Input Error'', Leaf ParameterType_Boolean),
      ([1, 2, 6], ''Power Supply 1'', Group),
      ([1, 2, 6, 1], ''Power Supply 1'', Leaf ParameterType_Boolean),
      ([1, 2, 7], ''Power Supply 2'', Group),
      ([1, 2, 7, 1], ''Power Supply 2'', Leaf ParameterType_Boolean),
      ([1, 3], ''Status'', Group),
      ([1, 3, 1], ''Connected'', Group),
      ([1, 3, 1, 1], ''Optimod Connected'', Leaf ParameterType_Boolean),
      ([1, 3, 2], ''Last Poll'', Group),
      ([1, 3, 2, 1], ''Last Poll'', Leaf ParameterType_String)]"
    by (simp add: treeElements_def tree_def deviceInfoSubtree_def monitoringSubtree_def
        statusSubtree_def parameterNodeNumber_def ParameterImpl_def)
  have d: "distinct (map fst (treeElements parameterNodes tree))"
    unfolding t by simp
  have k: "list_all keysAreNumbers (map snd tree)"
    by (simp add: tree_def deviceInfoSubtree_def monitoringSubtree_def statusSubtree_def
        parameterNodeNumber_def)
  show ?thesis unfolding p using e t d k by (simp add: p)
qed

end
